theory Spec2Isabelle
  imports Complex_Main "HOL-Library.AList"
begin

section \<open>The backup-server dashboard and the backup daemon it drives\<close>

text \<open>
  The development follows \<^verbatim>\<open>src/pages/BackupServer.tsx\<close>: the data the page
  declares, its string helpers, its asynchronous handlers and the tables it renders.
  A \<^verbatim>\<open>number\<close> that carries a count or a sequence number is an \<open>int\<close>, a
  \<^verbatim>\<open>Record<string, T>\<close> is an association list in insertion order, a timestamp
  is the string the backend sends.
\<close>

subsection \<open>Data declared by the page\<close>

record ProcessedManifest =
  pm_manifestCid :: string
  pm_sourcePeerId :: string
  pm_sequenceNumber :: int
  pm_folderId :: string
  pm_processedAt :: string
  pm_fileCount :: int
  pm_totalSizeBytes :: int
  pm_deletedCount :: int

record InProgressManifest =
  ip_manifestCid :: string
  ip_sourcePeerId :: string
  ip_sequenceNumber :: int
  ip_startedAt :: string
  ip_totalFiles :: int
  ip_filesDownloaded :: int
  ip_filesFailed :: int
  ip_currentStatus :: string

record FailedManifest =
  fm_manifestCid :: string
  fm_sourcePeerId :: string
  fm_failedAt :: string
  fm_errorMessage :: string
  fm_retryCount :: int

record DaemonStats =
  totalManifestsProcessed :: int
  totalFilesDownloaded :: int
  totalBytesDownloaded :: int
  totalFilesDeleted :: int
  lastActivityAt :: "string option"

record DaemonState =
  processedManifests :: "(string \<times> ProcessedManifest) list"
  inProgressManifests :: "(string \<times> InProgressManifest) list"
  failedManifests :: "FailedManifest list"
  lastPollTime :: string
  stats :: DaemonStats

record BackupServerConfig =
  enabled :: bool
  poll_interval_secs :: int
  max_concurrent_downloads :: int
  max_retries :: int
  auto_delete_tombstones :: bool

record AppConfig =
  backup_server :: BackupServerConfig

subsection \<open>String helpers\<close>

text \<open>
  \<^verbatim>\<open>String.prototype.slice(start, end)\<close>: a negative index counts from the end,
  both indices are clamped to the string, an absent \<^verbatim>\<open>end\<close> is the length, and
  an empty range gives the empty string. A string is its list of code units.
\<close>

definition slice_index :: "nat \<Rightarrow> int \<Rightarrow> nat" where
  "slice_index len i = (if i < 0 then nat (max (int len + i) 0) else nat (min i (int len)))"

definition slice :: "string \<Rightarrow> int \<Rightarrow> int option \<Rightarrow> string" where
  "slice s start fin =
     (let len = length s;
          lo = slice_index len start;
          hi = (case fin of None \<Rightarrow> len | Some e \<Rightarrow> slice_index len e)
      in if lo \<ge> hi then [] else take (hi - lo) (drop lo s))"

definition shortenCid :: "string \<Rightarrow> string" where
  "shortenCid cid =
     (if length cid \<le> 16 then cid
      else slice cid 0 (Some 8) @ ''...'' @ slice cid (- 8) None)"

definition shortenPeerId :: "string \<Rightarrow> string" where
  "shortenPeerId peerId =
     (if length peerId \<le> 20 then peerId
      else slice peerId 0 (Some 12) @ ''...'')"

subsection \<open>Asynchronous code with exceptions\<close>

text \<open>
  An \<^verbatim>\<open>async\<close> function either resolves with a value or rejects with the thrown
  value, and changes the world it runs in. A thrown value is a string, an
  \<^verbatim>\<open>Error\<close> with its message, or anything else (kept as its printed form).
\<close>

datatype js_value = JString string | JError string | JOther string

type_synonym ('w, 'a) async = "'w \<Rightarrow> (js_value + 'a) \<times> 'w"

definition await_then :: "('w, 'a) async \<Rightarrow> ('a \<Rightarrow> ('w, 'b) async) \<Rightarrow> ('w, 'b) async" where
  "await_then m f w = (case m w of (Inl e, w') \<Rightarrow> (Inl e, w') | (Inr a, w') \<Rightarrow> f a w')"

definition and_then :: "('w, unit) async \<Rightarrow> ('w, 'b) async \<Rightarrow> ('w, 'b) async" where
  "and_then m n = await_then m (\<lambda>_. n)"

definition try_catch :: "('w, 'a) async \<Rightarrow> (js_value \<Rightarrow> ('w, 'a) async) \<Rightarrow> ('w, 'a) async" where
  "try_catch m h w = (case m w of (Inl e, w') \<Rightarrow> h e w' | (Inr a, w') \<Rightarrow> (Inr a, w'))"

definition try_finally :: "('w, 'a) async \<Rightarrow> ('w, unit) async \<Rightarrow> ('w, 'a) async" where
  "try_finally m fin w =
     (case m w of (r, w') \<Rightarrow>
        (case fin w' of (Inl e, w'') \<Rightarrow> (Inl e, w'') | (Inr _, w'') \<Rightarrow> (r, w'')))"

subsection \<open>The page and the backend behind \<^verbatim>\<open>invoke\<close>\<close>

datatype command =
    enable_backup_daemon
  | disable_backup_daemon
  | pause_backup_daemon
  | resume_backup_daemon
  | get_backup_daemon_state
  | retry_failed_manifest string
  | get_config

text \<open>
  The backend is whatever answers \<^verbatim>\<open>invoke\<close>: a state of its own and, for each
  command, an answer or a rejection. \<^verbatim>\<open>invoke<T>\<close> is an unchecked cast, so the
  answer to the two queries is taken at the type the page declares.
\<close>

record 'b Tauri =
  command_result :: "command \<Rightarrow> 'b \<Rightarrow> (js_value + unit) \<times> 'b"
  state_result :: "'b \<Rightarrow> (js_value + DaemonState) \<times> 'b"
  config_result :: "'b \<Rightarrow> (js_value + AppConfig) \<times> 'b"

text \<open>
  The world of the page: its five \<^verbatim>\<open>useState\<close> cells, the backend, the commands
  invoked so far (what a mocked \<^verbatim>\<open>invoke\<close> records) and what was written with
  \<^verbatim>\<open>console.error\<close>.
\<close>

record 'b World =
  daemonState :: "DaemonState option"
  config :: "AppConfig option"
  loading :: bool
  error :: "string option"
  actionInProgress :: "string option"
  backend :: 'b
  invoked :: "command list"
  console :: "(string \<times> js_value) list"

definition setDaemonState :: "DaemonState option \<Rightarrow> ('b World, unit) async" where
  "setDaemonState v w = (Inr (), w\<lparr>daemonState := v\<rparr>)"

definition setConfig :: "AppConfig option \<Rightarrow> ('b World, unit) async" where
  "setConfig v w = (Inr (), w\<lparr>config := v\<rparr>)"

definition setError :: "string option \<Rightarrow> ('b World, unit) async" where
  "setError v w = (Inr (), w\<lparr>error := v\<rparr>)"

definition setActionInProgress :: "string option \<Rightarrow> ('b World, unit) async" where
  "setActionInProgress v w = (Inr (), w\<lparr>actionInProgress := v\<rparr>)"

definition console_error :: "string \<Rightarrow> js_value \<Rightarrow> ('b World, unit) async" where
  "console_error label e w = (Inr (), w\<lparr>console := console w @ [(label, e)]\<rparr>)"

definition invoke :: "'b Tauri \<Rightarrow> command \<Rightarrow> ('b World, unit) async" where
  "invoke t c w =
     (case command_result t c (backend w) of
        (r, b') \<Rightarrow> (r, w\<lparr>backend := b', invoked := invoked w @ [c]\<rparr>))"

definition invoke_state :: "'b Tauri \<Rightarrow> ('b World, DaemonState) async" where
  "invoke_state t w =
     (case state_result t (backend w) of
        (r, b') \<Rightarrow> (r, w\<lparr>backend := b', invoked := invoked w @ [get_backup_daemon_state]\<rparr>))"

definition invoke_config :: "'b Tauri \<Rightarrow> ('b World, AppConfig) async" where
  "invoke_config t w =
     (case config_result t (backend w) of
        (r, b') \<Rightarrow> (r, w\<lparr>backend := b', invoked := invoked w @ [get_config]\<rparr>))"

text \<open>
  The message of a caught value, as every \<^verbatim>\<open>catch\<close> block of the page computes it:
  \<^verbatim>\<open>typeof e === 'string' ? e : (e instanceof Error ? e.message : fallback)\<close>.
\<close>

fun error_message :: "js_value \<Rightarrow> string \<Rightarrow> string" where
  "error_message (JString s) fallback = s"
| "error_message (JError m) fallback = m"
| "error_message (JOther _) fallback = fallback"

definition loadState :: "'b Tauri \<Rightarrow> ('b World, unit) async" where
  "loadState t =
     try_catch
       (await_then (invoke_state t) (\<lambda>state.
          and_then (setDaemonState (Some state)) (setError None)))
       (\<lambda>e. setError (Some (error_message e ''Failed to load daemon state'')))"

definition loadConfig :: "'b Tauri \<Rightarrow> ('b World, unit) async" where
  "loadConfig t =
     try_catch
       (await_then (invoke_config t) (\<lambda>cfg. setConfig (Some cfg)))
       (\<lambda>e. console_error ''Failed to load config:'' e)"

definition handleEnable :: "'b Tauri \<Rightarrow> ('b World, unit) async" where
  "handleEnable t =
     try_finally
       (try_catch
          (and_then (setActionInProgress (Some ''enable''))
          (and_then (invoke t enable_backup_daemon)
          (and_then (loadConfig t)
                    (loadState t))))
          (\<lambda>e. setError (Some (error_message e ''Failed to enable daemon''))))
       (setActionInProgress None)"

definition handleDisable :: "'b Tauri \<Rightarrow> ('b World, unit) async" where
  "handleDisable t =
     try_finally
       (try_catch
          (and_then (setActionInProgress (Some ''disable''))
          (and_then (invoke t disable_backup_daemon)
          (and_then (loadConfig t)
                    (loadState t))))
          (\<lambda>e. setError (Some (error_message e ''Failed to disable daemon''))))
       (setActionInProgress None)"

definition handlePause :: "'b Tauri \<Rightarrow> ('b World, unit) async" where
  "handlePause t =
     try_finally
       (try_catch
          (and_then (setActionInProgress (Some ''pause''))
          (and_then (invoke t pause_backup_daemon)
                    (loadState t)))
          (\<lambda>e. setError (Some (error_message e ''Failed to pause daemon''))))
       (setActionInProgress None)"

definition handleResume :: "'b Tauri \<Rightarrow> ('b World, unit) async" where
  "handleResume t =
     try_finally
       (try_catch
          (and_then (setActionInProgress (Some ''resume''))
          (and_then (invoke t resume_backup_daemon)
                    (loadState t)))
          (\<lambda>e. setError (Some (error_message e ''Failed to resume daemon''))))
       (setActionInProgress None)"

definition handleRetry :: "'b Tauri \<Rightarrow> string \<Rightarrow> ('b World, unit) async" where
  "handleRetry t manifestCid =
     try_finally
       (try_catch
          (and_then (setActionInProgress (Some (''retry-'' @ manifestCid)))
          (and_then (invoke t (retry_failed_manifest manifestCid))
                    (loadState t)))
          (\<lambda>e. setError (Some (error_message e ''Failed to retry manifest''))))
       (setActionInProgress None)"

subsection \<open>What the page renders\<close>

text \<open>
  A table cell holds text and numbers side by side (\<^verbatim>\<open>{a}/{b}\<close> is three
  children); a template literal is one child, kept as its pieces.
  \<^verbatim>\<open>toLocaleString\<close> depends on the locale of the machine and is a parameter.
\<close>

datatype child = Txt string | Num int | Template "child list"

definition formatDate :: "(string \<Rightarrow> string) \<Rightarrow> string option \<Rightarrow> string" where
  "formatDate toLocaleString dateStr =
     (case dateStr of
        None \<Rightarrow> ''Never''
      | Some d \<Rightarrow> if d = [] then ''Never'' else toLocaleString d)"

text \<open>
  The arithmetic of the progress bar. JavaScript numbers are IEEE doubles: a count
  received from the backend is the nearest double, a quotient and a product are rounded,
  and a division by zero does not throw but gives \<^verbatim>\<open>NaN\<close> or an infinity. The
  doubles are not constructed here; the expression of the page is kept over any
  arithmetic, given by the double of an integer and the two operations the expression
  uses. The test \<^verbatim>\<open>totalFiles > 0\<close> is made on the count itself: the nearest
  double of a positive integer is positive, that of any other integer is not.
\<close>

record 'n Arithmetic =
  js_number :: "int \<Rightarrow> 'n"
  js_divide :: "'n \<Rightarrow> 'n \<Rightarrow> 'n"
  js_times :: "'n \<Rightarrow> 'n \<Rightarrow> 'n"

definition progress_width :: "'n Arithmetic \<Rightarrow> InProgressManifest \<Rightarrow> 'n" where
  "progress_width A manifest =
     (if ip_totalFiles manifest > 0
      then js_times A
             (js_divide A (js_number A (ip_filesDownloaded manifest))
                          (js_number A (ip_totalFiles manifest)))
             (js_number A 100)
      else js_number A 0)"

record 'n ProgressRow =
  pr_key :: string
  pr_cid_title :: string
  pr_cid :: string
  pr_peer_title :: string
  pr_peer :: string
  pr_sequence :: int
  pr_status :: string
  pr_width_percent :: 'n
  pr_progress_text :: "child list"
  pr_started :: string

definition progressRow ::
  "'n Arithmetic \<Rightarrow> (string \<Rightarrow> string) \<Rightarrow> InProgressManifest \<Rightarrow> 'n ProgressRow" where
  "progressRow A toLocaleString manifest =
     \<lparr> pr_key = ip_manifestCid manifest,
       pr_cid_title = ip_manifestCid manifest,
       pr_cid = shortenCid (ip_manifestCid manifest),
       pr_peer_title = ip_sourcePeerId manifest,
       pr_peer = shortenPeerId (ip_sourcePeerId manifest),
       pr_sequence = ip_sequenceNumber manifest,
       pr_status = ip_currentStatus manifest,
       pr_width_percent = progress_width A manifest,
       pr_progress_text =
         [Num (ip_filesDownloaded manifest), Txt ''/'', Num (ip_totalFiles manifest)] @
         (if ip_filesFailed manifest > 0
          then [Template [Txt '' ('', Num (ip_filesFailed manifest), Txt '' failed)'']]
          else []),
       pr_started = formatDate toLocaleString (Some (ip_startedAt manifest)) \<rparr>"

text \<open>
  A row of the failed-manifests table. Its button carries the closure
  \<^verbatim>\<open>() => handleRetry(manifest.manifestCid)\<close>.
\<close>

record 'b FailedRow =
  fr_key :: string
  fr_cid_title :: string
  fr_cid :: string
  fr_peer_title :: string
  fr_peer :: string
  fr_error_message :: string
  fr_retries :: "child list"
  fr_failed_at :: string
  fr_button_label :: string
  fr_button_disabled :: bool
  fr_onClick :: "('b World, unit) async"

definition failedRow ::
  "'b Tauri \<Rightarrow> (string \<Rightarrow> string) \<Rightarrow> AppConfig option \<Rightarrow> string option \<Rightarrow>
   FailedManifest \<Rightarrow> 'b FailedRow" where
  "failedRow t toLocaleString cfg action manifest =
     \<lparr> fr_key = fm_manifestCid manifest,
       fr_cid_title = fm_manifestCid manifest,
       fr_cid = shortenCid (fm_manifestCid manifest),
       fr_peer_title = fm_sourcePeerId manifest,
       fr_peer = shortenPeerId (fm_sourcePeerId manifest),
       fr_error_message = fm_errorMessage manifest,
       fr_retries =
         [Num (fm_retryCount manifest), Txt ''/'',
          Num (case cfg of None \<Rightarrow> 3 | Some c \<Rightarrow> max_retries (backup_server c))],
       fr_failed_at = formatDate toLocaleString (Some (fm_failedAt manifest)),
       fr_button_label =
         (if action = Some (''retry-'' @ fm_manifestCid manifest)
          then ''Retrying...'' else ''Retry''),
       fr_button_disabled = (action = Some (''retry-'' @ fm_manifestCid manifest)),
       fr_onClick = handleRetry t (fm_manifestCid manifest) \<rparr>"

text \<open>
  The configuration panel, shown when a configuration has been loaded: four labelled
  values.
\<close>

definition configInfo :: "AppConfig \<Rightarrow> (string \<times> child list) list" where
  "configInfo c =
     [(''Poll Interval:'', [Num (poll_interval_secs (backup_server c)), Txt ''s'']),
      (''Max Concurrent Downloads:'', [Num (max_concurrent_downloads (backup_server c))]),
      (''Max Retries:'', [Num (max_retries (backup_server c))]),
      (''Auto-Delete Tombstones:'',
         [Txt (if auto_delete_tombstones (backup_server c) then ''Yes'' else ''No'')])]"

text \<open>
  The dashboard: while \<^verbatim>\<open>loading\<close> only a placeholder is shown (\<open>None\<close>).
  Afterwards the header offers the enable button when the daemon is disabled and the
  pause, resume and disable buttons when it is enabled (each with its label, whether it
  is disabled, and its \<^verbatim>\<open>onClick\<close>), and each of the two tables appears when
  its list is not empty, headed by the number of its rows. An absent daemon state
  counts as empty lists, an absent configuration as a disabled daemon.
\<close>

text \<open>
  \<^verbatim>\<open>Object.values\<close> lists the values of the keys that are array indices first (a
  decimal numeral without leading zero, below \<open>2\<^sup>3\<^sup>2 - 1\<close>), in ascending
  numeric order, and then the values of the other keys in insertion order.
\<close>

definition isDigit :: "char \<Rightarrow> bool" where
  "isDigit c = (c \<in> set ''0123456789'')"

definition decimal :: "string \<Rightarrow> int" where
  "decimal k = fold (\<lambda>c n. 10 * n + (of_char c - 48)) k 0"

definition isArrayIndex :: "string \<Rightarrow> bool" where
  "isArrayIndex k =
     (k \<noteq> [] \<and> list_all isDigit k \<and> (k = ''0'' \<or> hd k \<noteq> CHR ''0'') \<and>
      decimal k < 2 ^ 32 - 1)"

definition objectValues :: "(string \<times> 'a) list \<Rightarrow> 'a list" where
  "objectValues obj =
     map snd (sort_key (\<lambda>(k, v). decimal k) (filter (\<lambda>(k, v). isArrayIndex k) obj)) @
     map snd (filter (\<lambda>(k, v). \<not> isArrayIndex k) obj)"

definition headerActions ::
  "'b Tauri \<Rightarrow> bool \<Rightarrow> string option \<Rightarrow> (string \<times> bool \<times> ('b World, unit) async) list" where
  "headerActions t isEnabled action =
     (if \<not> isEnabled
      then [(if action = Some ''enable'' then ''Enabling...'' else ''Enable Daemon'',
             action = Some ''enable'', handleEnable t)]
      else []) @
     (if isEnabled
      then [(if action = Some ''pause'' then ''Pausing...'' else ''Pause'',
             action = Some ''pause'', handlePause t),
            (if action = Some ''resume'' then ''Resuming...'' else ''Resume'',
             action = Some ''resume'', handleResume t),
            (if action = Some ''disable'' then ''Disabling...'' else ''Disable Daemon'',
             action = Some ''disable'', handleDisable t)]
      else [])"

record ('b, 'n) Dashboard =
  isEnabled :: bool
  header_actions :: "(string \<times> bool \<times> ('b World, unit) async) list"
  error_banner :: "string option"
  config_info :: "(string \<times> child list) list option"
  in_progress_section :: "(int \<times> 'n ProgressRow list) option"
  failed_section :: "(int \<times> 'b FailedRow list) option"

definition BackupServer ::
  "'b Tauri \<Rightarrow> 'n Arithmetic \<Rightarrow> (string \<Rightarrow> string) \<Rightarrow> 'b World \<Rightarrow>
   ('b, 'n) Dashboard option" where
  "BackupServer t A toLocaleString w =
     (if loading w then None
      else
        let inProgress =
              (case daemonState w of None \<Rightarrow> []
               | Some s \<Rightarrow> objectValues (inProgressManifests s));
            failed =
              (case daemonState w of None \<Rightarrow> [] | Some s \<Rightarrow> failedManifests s)
        in Some
          \<lparr> isEnabled = (case config w of None \<Rightarrow> False | Some c \<Rightarrow> enabled (backup_server c)),
            header_actions =
              headerActions t
                (case config w of None \<Rightarrow> False | Some c \<Rightarrow> enabled (backup_server c))
                (actionInProgress w),
            error_banner = (case error w of None \<Rightarrow> None | Some e \<Rightarrow> if e = [] then None else Some e),
            config_info = map_option configInfo (config w),
            in_progress_section =
              (if length inProgress > 0
               then Some (int (length inProgress), map (progressRow A toLocaleString) inProgress)
               else None),
            failed_section =
              (if length failed > 0
               then Some (int (length failed),
                          map (failedRow t toLocaleString (config w) (actionInProgress w)) failed)
               else None) \<rparr>)"

subsection \<open>The daemon behind the commands\<close>

text \<open>
  The page only displays and commands the daemon; the daemon's own code is not among
  the sources. Its data and the steps of its poll cycle are modelled here from the
  specification (sections 3, 4.1 to 4.4 and 6), over the \<open>DaemonState\<close> the page
  declares. The state a step returns is the state persisted after it. Waiting
  (poll interval, backoff between attempts) takes no part in what is computed and is
  left out.
\<close>

text \<open>Modelled from the spec: \<^verbatim>\<open>SourcePeerConfig\<close> (section 3), one entry per peer
  backed up; the daemon's configuration types are not under the sources.\<close>

record SourcePeerConfig =
  sp_peerId :: string
  sp_addresses :: "string list"
  sp_folderId :: string
  sp_manifestServer :: string

text \<open>Modelled from the spec: the configuration the daemon consumes (section 6), the
  fields the page declares for \<^verbatim>\<open>backup_server\<close> plus the list of source peers,
  which no source file declares.\<close>

record DaemonConfig = BackupServerConfig +
  source_peers :: "SourcePeerConfig list"

text \<open>Modelled from the spec: \<^verbatim>\<open>ManifestPointer\<close> (section 3), the answer of a
  discovery query.\<close>

record ManifestPointer =
  mp_manifestCid :: string
  mp_sequenceNumber :: int
  mp_folderId :: string

text \<open>Modelled from the spec: \<^verbatim>\<open>FileEntry\<close> and the parsed \<^verbatim>\<open>Manifest\<close>
  (section 3).\<close>

record FileEntry =
  fe_relativePath :: string
  fe_cid :: string
  fe_sizeBytes :: int
  fe_tombstone :: bool

record Manifest =
  m_folderId :: string
  m_sequenceNumber :: int
  m_entries :: "FileEntry list"
  m_generatedAt :: string

text \<open>Modelled from the spec: the errors of the two clients (sections 4.1 and 4.2).\<close>

datatype DiscoveryError = Unreachable | Unauthorized | MalformedResponse

datatype FetchError = NotFound | NetworkError | Timeout

text \<open>Modelled from the spec: the message recorded with a failed manifest. The
  specification asks for a human-readable message and fixes no wording.\<close>

fun describeFailure :: "FetchError option \<Rightarrow> string" where
  "describeFailure None = ''no fetch attempted''"
| "describeFailure (Some NotFound) = ''manifest not found''"
| "describeFailure (Some NetworkError) = ''network error''"
| "describeFailure (Some Timeout) = ''timeout''"

text \<open>Modelled from the spec: the last processed sequence number of a peer (4.3, step
  2), the greatest sequence number among that peer's processed manifests, \<open>None\<close>
  when it has none.\<close>

definition lastProcessedSequence :: "DaemonState \<Rightarrow> string \<Rightarrow> int option" where
  "lastProcessedSequence st peer =
     (case map pm_sequenceNumber
             (filter (\<lambda>m. pm_sourcePeerId m = peer) (map snd (processedManifests st))) of
        [] \<Rightarrow> None
      | x # xs \<Rightarrow> Some (fold max xs x))"

text \<open>Modelled from the spec: the sequence-number gate (4.3, step 2): a pointer is
  newer when nothing was processed for the peer or its number is greater.\<close>

definition isNewer :: "int \<Rightarrow> int option \<Rightarrow> bool" where
  "isNewer sequenceNumber lastProcessed =
     (case lastProcessed of None \<Rightarrow> True | Some l \<Rightarrow> l < sequenceNumber)"

text \<open>Modelled from the spec: whether a manifest of this peer and sequence number is
  already in progress (4.3, step 3).\<close>

definition inProgressFor :: "DaemonState \<Rightarrow> string \<Rightarrow> int \<Rightarrow> bool" where
  "inProgressFor st peer sequenceNumber =
     list_ex (\<lambda>m. ip_sourcePeerId m = peer \<and> ip_sequenceNumber m = sequenceNumber)
       (map snd (inProgressManifests st))"

text \<open>Modelled from the spec: whether a manifest is recorded as failed; such a
  manifest is terminal until an explicit retry removes the entry (4.3, retry semantics;
  4.4; section 7).\<close>

definition isFailed :: "DaemonState \<Rightarrow> string \<Rightarrow> bool" where
  "isFailed st manifestCid =
     list_ex (\<lambda>f. fm_manifestCid f = manifestCid) (failedManifests st)"

text \<open>Modelled from the spec: fetching a manifest under the retry policy (4.2, 4.3
  step 7). The client does not retry; the orchestrator counts the attempts and stops at
  \<open>maxRetries\<close>. The answer of the fetch client to attempt number \<open>attempts\<close> is
  \<open>fetchManifest manifestCid attempts\<close>. Returns the manifest or the last error,
  with the number of attempts made.\<close>

function fetchManifestWithRetries ::
  "(string \<Rightarrow> int \<Rightarrow> FetchError + Manifest) \<Rightarrow> int \<Rightarrow> string \<Rightarrow> int \<Rightarrow> FetchError option \<Rightarrow>
   (FetchError option + Manifest) \<times> int" where
  "fetchManifestWithRetries fetchManifest maxRetries manifestCid attempts lastError =
     (if maxRetries \<le> attempts then (Inl lastError, attempts)
      else
        (case fetchManifest manifestCid attempts of
           Inr m \<Rightarrow> (Inr m, attempts + 1)
         | Inl e \<Rightarrow>
             fetchManifestWithRetries fetchManifest maxRetries manifestCid (attempts + 1) (Some e)))"
  by pat_completeness auto
termination
  by (relation "measure (\<lambda>(f, maxRetries, c, attempts, e). nat (maxRetries - attempts))") auto

declare fetchManifestWithRetries.simps [simp del]

text \<open>Modelled from the spec: accepting a newer manifest (4.3, steps 3 and 7). A
  fetched manifest becomes an \<^verbatim>\<open>InProgressManifest\<close> counting its entries that are
  not tombstones; a fetch that exhausted its retries becomes a \<^verbatim>\<open>FailedManifest\<close>
  with the error message and the number of attempts. The second component is the
  number of fetches made.\<close>

definition acceptManifest ::
  "(string \<Rightarrow> int \<Rightarrow> FetchError + Manifest) \<Rightarrow> int \<Rightarrow> string \<Rightarrow> SourcePeerConfig \<Rightarrow>
   ManifestPointer \<Rightarrow> DaemonState \<Rightarrow> DaemonState \<times> int" where
  "acceptManifest fetchManifest maxRetries now peer ptr st =
     (case fetchManifestWithRetries fetchManifest maxRetries (mp_manifestCid ptr) 0 None of
        (Inr m, attempts) \<Rightarrow>
          (st\<lparr>inProgressManifests :=
                AList.update (mp_manifestCid ptr)
                  \<lparr> ip_manifestCid = mp_manifestCid ptr,
                    ip_sourcePeerId = sp_peerId peer,
                    ip_sequenceNumber = mp_sequenceNumber ptr,
                    ip_startedAt = now,
                    ip_totalFiles = int (length (filter (\<lambda>e. \<not> fe_tombstone e) (m_entries m))),
                    ip_filesDownloaded = 0,
                    ip_filesFailed = 0,
                    ip_currentStatus = ''downloading'' \<rparr>
                  (inProgressManifests st)\<rparr>,
           attempts)
      | (Inl err, attempts) \<Rightarrow>
          (st\<lparr>inProgressManifests := AList.delete (mp_manifestCid ptr) (inProgressManifests st),
              failedManifests :=
                failedManifests st @
                  [\<lparr> fm_manifestCid = mp_manifestCid ptr,
                     fm_sourcePeerId = sp_peerId peer,
                     fm_failedAt = now,
                     fm_errorMessage = describeFailure err,
                     fm_retryCount = attempts \<rparr>]\<rparr>,
           attempts))"

text \<open>Modelled from the spec: polling one source peer (4.3, steps 1 to 3). A failed
  discovery, a pointer that is not newer, a manifest already in progress and a manifest
  recorded as failed are all skipped.\<close>

definition pollPeer ::
  "(string \<Rightarrow> int \<Rightarrow> FetchError + Manifest) \<Rightarrow> int \<Rightarrow> string \<Rightarrow> SourcePeerConfig \<Rightarrow>
   DiscoveryError + ManifestPointer \<Rightarrow> DaemonState \<Rightarrow> DaemonState \<times> int" where
  "pollPeer fetchManifest maxRetries now peer discovered st =
     (case discovered of
        Inl err \<Rightarrow> (st, 0)
      | Inr ptr \<Rightarrow>
          if \<not> isNewer (mp_sequenceNumber ptr) (lastProcessedSequence st (sp_peerId peer))
          then (st, 0)
          else if inProgressFor st (sp_peerId peer) (mp_sequenceNumber ptr) then (st, 0)
          else if isFailed st (mp_manifestCid ptr) then (st, 0)
          else acceptManifest fetchManifest maxRetries now peer ptr st)"

text \<open>Modelled from the spec: one poll cycle (4.3): every configured peer in turn,
  then the time of the poll is recorded.\<close>

fun pollPeers ::
  "(SourcePeerConfig \<Rightarrow> DiscoveryError + ManifestPointer) \<Rightarrow>
   (string \<Rightarrow> int \<Rightarrow> FetchError + Manifest) \<Rightarrow> int \<Rightarrow> string \<Rightarrow> SourcePeerConfig list \<Rightarrow>
   DaemonState \<Rightarrow> DaemonState \<times> int" where
  "pollPeers discover fetchManifest maxRetries now [] st = (st, 0)"
| "pollPeers discover fetchManifest maxRetries now (p # ps) st =
     (case pollPeer fetchManifest maxRetries now p (discover p) st of
        (st', n) \<Rightarrow>
          (case pollPeers discover fetchManifest maxRetries now ps st' of
             (st'', k) \<Rightarrow> (st'', n + k)))"

definition pollCycle ::
  "DaemonConfig \<Rightarrow> (SourcePeerConfig \<Rightarrow> DiscoveryError + ManifestPointer) \<Rightarrow>
   (string \<Rightarrow> int \<Rightarrow> FetchError + Manifest) \<Rightarrow> string \<Rightarrow> DaemonState \<Rightarrow> DaemonState \<times> int" where
  "pollCycle cfg discover fetchManifest now st =
     (case pollPeers discover fetchManifest (max_retries cfg) now (source_peers cfg) st of
        (st', n) \<Rightarrow> (st'\<lparr>lastPollTime := now\<rparr>, n))"



text \<open>Modelled from the spec: the explicit retry command (4.4): the entry leaves the
  failed manifests, so that the next poll cycle picks the manifest up again.\<close>

definition retryFailedManifest :: "string \<Rightarrow> DaemonState \<Rightarrow> DaemonState" where
  "retryFailedManifest manifestCid st =
     st\<lparr>failedManifests := filter (\<lambda>f. fm_manifestCid f \<noteq> manifestCid) (failedManifests st)\<rparr>"





subsection \<open>Concrete inputs\<close>

text \<open>
  A page as React first mounts it, a daemon state with one manifest under way and one
  failed, and two backends: one that answers every command, one that rejects every
  command.
\<close>

definition fresh_page :: "unit World" where
  "fresh_page =
     \<lparr> daemonState = None, config = None, loading = True, error = None,
       actionInProgress = None, backend = (), invoked = [], console = [] \<rparr>"

definition sample_in_progress :: InProgressManifest where
  "sample_in_progress =
     \<lparr> ip_manifestCid = ''zDvZRwzmAAAABBBBCCCCDDDD'', ip_sourcePeerId = ''16Uiu2HAmPeerOne'',
       ip_sequenceNumber = 4, ip_startedAt = ''2025-01-02T03:04:05Z'', ip_totalFiles = 8,
       ip_filesDownloaded = 2, ip_filesFailed = 1, ip_currentStatus = ''downloading'' \<rparr>"

definition sample_failed :: FailedManifest where
  "sample_failed =
     \<lparr> fm_manifestCid = ''zDvZRwzmEEEEFFFFGGGGHHHH'', fm_sourcePeerId = ''16Uiu2HAmPeerTwo'',
       fm_failedAt = ''2025-01-02T03:05:00Z'', fm_errorMessage = ''manifest not found'',
       fm_retryCount = 3 \<rparr>"

definition sample_state :: DaemonState where
  "sample_state =
     \<lparr> processedManifests = [],
       inProgressManifests = [(''zDvZRwzmAAAABBBBCCCCDDDD'', sample_in_progress)],
       failedManifests = [sample_failed],
       lastPollTime = ''2025-01-02T03:06:00Z'',
       stats = \<lparr> totalManifestsProcessed = 0, totalFilesDownloaded = 2,
                 totalBytesDownloaded = 2048, totalFilesDeleted = 0,
                 lastActivityAt = Some ''2025-01-02T03:05:30Z'' \<rparr> \<rparr>"

definition sample_config :: AppConfig where
  "sample_config =
     \<lparr> backup_server =
         \<lparr> enabled = True, poll_interval_secs = 30, max_concurrent_downloads = 3,
           max_retries = 3, auto_delete_tombstones = True \<rparr> \<rparr>"

definition answering_backend :: "unit Tauri" where
  "answering_backend =
     \<lparr> command_result = (\<lambda>c b. (Inr (), b)),
       state_result = (\<lambda>b. (Inr sample_state, b)),
       config_result = (\<lambda>b. (Inr sample_config, b)) \<rparr>"

definition rejecting_backend :: "unit Tauri" where
  "rejecting_backend =
     \<lparr> command_result = (\<lambda>c b.
         (Inl (case c of
                 enable_backup_daemon \<Rightarrow> JString ''Backup daemon is already enabled''
               | disable_backup_daemon \<Rightarrow> JError ''config is read-only''
               | _ \<Rightarrow> JOther ''{code: 7}''), b)),
       state_result = (\<lambda>b. (Inl (JString ''daemon not initialised''), b)),
       config_result = (\<lambda>b. (Inl (JString ''no config''), b)) \<rparr>"

text \<open>
  Two arithmetics without rounding, where \<open>None\<close> stands for every value that is
  not a finite number. They differ in the quotient by zero only: not a number in the
  first, zero in the second.
\<close>

definition rational_arithmetic :: "rat option Arithmetic" where
  "rational_arithmetic =
     \<lparr> js_number = (\<lambda>i. Some (of_int i)),
       js_divide = (\<lambda>x y. case (x, y) of
                      (Some a, Some b) \<Rightarrow> if b = 0 then None else Some (a / b)
                    | _ \<Rightarrow> None),
       js_times = (\<lambda>x y. case (x, y) of (Some a, Some b) \<Rightarrow> Some (a * b) | _ \<Rightarrow> None) \<rparr>"

definition zero_quotient_arithmetic :: "rat option Arithmetic" where
  "zero_quotient_arithmetic =
     rational_arithmetic
       \<lparr> js_divide := (\<lambda>x y. case (x, y) of
                      (Some a, Some b) \<Rightarrow> if b = 0 then Some 0 else Some (a / b)
                    | _ \<Rightarrow> None) \<rparr>"

definition loaded_page :: "unit World" where
  "loaded_page = fresh_page\<lparr>loading := False, daemonState := Some sample_state\<rparr>"

text \<open>
  For the daemon: a source peer, the state after its manifest number 1 was processed, a
  pointer to its manifest number 2, a fetch client that always fails and one that always
  answers, and a configuration with three retries.
\<close>

definition peer_one :: SourcePeerConfig where
  "peer_one =
     \<lparr> sp_peerId = ''16Uiu2HAmPeerOne'', sp_addresses = [''/ip4/10.0.0.2/tcp/8070''],
       sp_folderId = ''folder-a'', sp_manifestServer = ''http://10.0.0.2:8085'' \<rparr>"

definition processed_one :: ProcessedManifest where
  "processed_one =
     \<lparr> pm_manifestCid = ''zManifestOne'', pm_sourcePeerId = ''16Uiu2HAmPeerOne'',
       pm_sequenceNumber = 1, pm_folderId = ''folder-a'',
       pm_processedAt = ''2025-01-01T00:00:00Z'', pm_fileCount = 1,
       pm_totalSizeBytes = 10, pm_deletedCount = 0 \<rparr>"

definition state_after_one :: DaemonState where
  "state_after_one =
     \<lparr> processedManifests = [(''zManifestOne'', processed_one)],
       inProgressManifests = [],
       failedManifests = [],
       lastPollTime = ''2025-01-01T00:00:30Z'',
       stats = \<lparr> totalManifestsProcessed = 1, totalFilesDownloaded = 1,
                 totalBytesDownloaded = 10, totalFilesDeleted = 0,
                 lastActivityAt = Some ''2025-01-01T00:00:00Z'' \<rparr> \<rparr>"

definition pointer_one :: ManifestPointer where
  "pointer_one =
     \<lparr> mp_manifestCid = ''zManifestOne'', mp_sequenceNumber = 1, mp_folderId = ''folder-a'' \<rparr>"

definition pointer_two :: ManifestPointer where
  "pointer_two =
     \<lparr> mp_manifestCid = ''zManifestTwo'', mp_sequenceNumber = 2, mp_folderId = ''folder-a'' \<rparr>"

definition manifest_two :: Manifest where
  "manifest_two =
     \<lparr> m_folderId = ''folder-a'', m_sequenceNumber = 2,
       m_entries = [\<lparr> fe_relativePath = ''a.txt'', fe_cid = ''zFileA'', fe_sizeBytes = 10,
                      fe_tombstone = True \<rparr>],
       m_generatedAt = ''2025-01-01T00:01:00Z'' \<rparr>"


definition failing_fetch :: "string \<Rightarrow> int \<Rightarrow> FetchError + Manifest" where
  "failing_fetch c k = Inl NetworkError"

definition answering_fetch :: "string \<Rightarrow> int \<Rightarrow> FetchError + Manifest" where
  "answering_fetch c k = Inr manifest_two"

definition daemon_config :: DaemonConfig where
  "daemon_config =
     \<lparr> enabled = True, poll_interval_secs = 30, max_concurrent_downloads = 3,
       max_retries = 3, auto_delete_tombstones = True, source_peers = [peer_one] \<rparr>"



section \<open>Properties\<close>

subsection \<open>String helpers: properties\<close>

lemma slice_prefix: "n \<le> length s \<Longrightarrow> slice s 0 (Some (int n)) = take n s"
  by (cases "n = 0") (simp_all add: slice_def slice_index_def Let_def min_def)

lemma slice_suffix:
  "0 < n \<Longrightarrow> n \<le> length s \<Longrightarrow> slice s (- int n) None = drop (length s - n) s"
  by (auto simp add: slice_def slice_index_def Let_def max_def nat_diff_distrib')

text \<open>
  C10. \<^verbatim>\<open>shortenCid\<close> returns a CID of at most 16 code units unchanged; a longer one
  becomes its first 8 code units, three dots and its last 8 code units, 19 code units
  in all.
\<close>

theorem shortenCid_spec:
  "(length cid \<le> 16 \<longrightarrow> shortenCid cid = cid) \<and>
   (16 < length cid \<longrightarrow>
      shortenCid cid = take 8 cid @ ''...'' @ drop (length cid - 8) cid \<and>
      length (shortenCid cid) = 19)"
proof -
  have short: "shortenCid cid = cid" if "length cid \<le> 16"
    using that by (simp add: shortenCid_def)
  have long: "shortenCid cid = take 8 cid @ ''...'' @ drop (length cid - 8) cid"
    if "16 < length cid"
  proof -
    have "slice cid 0 (Some (int 8)) = take 8 cid"
      using that by (intro slice_prefix) simp
    moreover have "slice cid (- int 8) None = drop (length cid - 8) cid"
      using that by (intro slice_suffix) simp_all
    ultimately show ?thesis
      using that by (simp add: shortenCid_def)
  qed
  have len: "length (take 8 cid @ ''...'' @ drop (length cid - 8) cid) = 19"
    if "16 < length cid"
    using that by simp
  show ?thesis
    using short long len by simp
qed

theorem shortenCid_spec_witness:
  "shortenCid ''zDvZRwzm3abc'' = ''zDvZRwzm3abc'' \<and>
   shortenCid ''zDvZRwzmABCDEFGHIJKLMNOP12345678'' = ''zDvZRwzm...12345678'' \<and>
   length (shortenCid ''zDvZRwzmABCDEFGHIJKLMNOP12345678'') = 19"
  using shortenCid_spec [of "''zDvZRwzm3abc''"]
        shortenCid_spec [of "''zDvZRwzmABCDEFGHIJKLMNOP12345678''"]
  by simp

subsection \<open>Handlers: what they invoke and how they end\<close>

lemmas async_defs =
  await_then_def and_then_def try_catch_def try_finally_def
  setDaemonState_def setConfig_def setError_def setActionInProgress_def console_error_def
  invoke_def invoke_state_def invoke_config_def

lemma loadState_resolves: "fst (loadState t w) = Inr ()"
  by (simp add: loadState_def async_defs split: prod.splits sum.splits)

lemma loadState_invoked:
  "invoked (snd (loadState t w)) = invoked w @ [get_backup_daemon_state]"
  by (simp add: loadState_def async_defs split: prod.splits sum.splits)

lemma loadState_success:
  "state_result t (backend w) = (Inr s, b') \<Longrightarrow>
   daemonState (snd (loadState t w)) = Some s \<and> error (snd (loadState t w)) = None"
  by (simp add: loadState_def async_defs)

lemma loadConfig_resolves: "fst (loadConfig t w) = Inr ()"
  by (simp add: loadConfig_def async_defs split: prod.splits sum.splits)

lemma handleEnable_total:
  "fst (handleEnable t w) = Inr () \<and> actionInProgress (snd (handleEnable t w)) = None"
  by (simp add: handleEnable_def loadState_def loadConfig_def async_defs
      split: prod.splits sum.splits)

lemma handleEnable_reports:
  "command_result t enable_backup_daemon (backend w) = (Inl e, b') \<Longrightarrow>
   error (snd (handleEnable t w)) = Some (error_message e ''Failed to enable daemon'')"
  by (simp add: handleEnable_def loadState_def loadConfig_def async_defs
      split: prod.splits sum.splits)

lemma handleEnable_invoked:
  "invoked (snd (handleEnable t w)) =
     invoked w @ enable_backup_daemon #
       (if isl (fst (command_result t enable_backup_daemon (backend w))) then []
        else [get_config, get_backup_daemon_state])"
  by (simp add: handleEnable_def loadState_def loadConfig_def async_defs
      split: prod.splits sum.splits)

lemma handleDisable_total:
  "fst (handleDisable t w) = Inr () \<and> actionInProgress (snd (handleDisable t w)) = None"
  by (simp add: handleDisable_def loadState_def loadConfig_def async_defs
      split: prod.splits sum.splits)

lemma handleDisable_reports:
  "command_result t disable_backup_daemon (backend w) = (Inl e, b') \<Longrightarrow>
   error (snd (handleDisable t w)) = Some (error_message e ''Failed to disable daemon'')"
  by (simp add: handleDisable_def loadState_def loadConfig_def async_defs
      split: prod.splits sum.splits)

lemma handleDisable_invoked:
  "invoked (snd (handleDisable t w)) =
     invoked w @ disable_backup_daemon #
       (if isl (fst (command_result t disable_backup_daemon (backend w))) then []
        else [get_config, get_backup_daemon_state])"
  by (simp add: handleDisable_def loadState_def loadConfig_def async_defs
      split: prod.splits sum.splits)

lemma handlePause_total:
  "fst (handlePause t w) = Inr () \<and> actionInProgress (snd (handlePause t w)) = None"
  by (simp add: handlePause_def loadState_def loadConfig_def async_defs
      split: prod.splits sum.splits)

lemma handlePause_reports:
  "command_result t pause_backup_daemon (backend w) = (Inl e, b') \<Longrightarrow>
   error (snd (handlePause t w)) = Some (error_message e ''Failed to pause daemon'')"
  by (simp add: handlePause_def loadState_def loadConfig_def async_defs
      split: prod.splits sum.splits)

lemma handlePause_invoked:
  "invoked (snd (handlePause t w)) =
     invoked w @ pause_backup_daemon #
       (if isl (fst (command_result t pause_backup_daemon (backend w))) then []
        else [get_backup_daemon_state])"
  by (simp add: handlePause_def loadState_def loadConfig_def async_defs
      split: prod.splits sum.splits)

lemma handleResume_total:
  "fst (handleResume t w) = Inr () \<and> actionInProgress (snd (handleResume t w)) = None"
  by (simp add: handleResume_def loadState_def loadConfig_def async_defs
      split: prod.splits sum.splits)

lemma handleResume_reports:
  "command_result t resume_backup_daemon (backend w) = (Inl e, b') \<Longrightarrow>
   error (snd (handleResume t w)) = Some (error_message e ''Failed to resume daemon'')"
  by (simp add: handleResume_def loadState_def loadConfig_def async_defs
      split: prod.splits sum.splits)

lemma handleResume_invoked:
  "invoked (snd (handleResume t w)) =
     invoked w @ resume_backup_daemon #
       (if isl (fst (command_result t resume_backup_daemon (backend w))) then []
        else [get_backup_daemon_state])"
  by (simp add: handleResume_def loadState_def loadConfig_def async_defs
      split: prod.splits sum.splits)

lemma handleRetry_total:
  "fst (handleRetry t cid w) = Inr () \<and> actionInProgress (snd (handleRetry t cid w)) = None"
  by (simp add: handleRetry_def loadState_def loadConfig_def async_defs
      split: prod.splits sum.splits)

lemma handleRetry_reports:
  "command_result t (retry_failed_manifest cid) (backend w) = (Inl e, b') \<Longrightarrow>
   error (snd (handleRetry t cid w)) = Some (error_message e ''Failed to retry manifest'')"
  by (simp add: handleRetry_def loadState_def loadConfig_def async_defs
      split: prod.splits sum.splits)

lemma handleRetry_invoked:
  "invoked (snd (handleRetry t cid w)) =
     invoked w @ retry_failed_manifest cid #
       (if isl (fst (command_result t (retry_failed_manifest cid) (backend w))) then []
        else [get_backup_daemon_state])"
  by (simp add: handleRetry_def loadState_def loadConfig_def async_defs
      split: prod.splits sum.splits)

text \<open>
  C1. Each control of the page invokes its own command first: enable, disable, pause,
  resume and retry (with the manifest CID of the failed manifest as argument), and the
  state query invokes \<^verbatim>\<open>get_backup_daemon_state\<close> and stores the snapshot it
  receives, whole. After a command that succeeded the handlers only reload: the state,
  and for enable and disable the configuration before it (\<^verbatim>\<open>get_config\<close>, which
  reads the application configuration and is no command of the daemon); after a
  command that failed nothing more is invoked. The buttons of the header run these
  handlers (enable when the daemon is disabled; pause, resume and disable when it is
  enabled) and the button of a failed manifest runs the retry on its manifest CID.
\<close>

theorem control_surface_commands:
  "invoked (snd (handleEnable t w)) =
     invoked w @ enable_backup_daemon #
       (if isl (fst (command_result t enable_backup_daemon (backend w))) then []
        else [get_config, get_backup_daemon_state]) \<and>
   invoked (snd (handleDisable t w)) =
     invoked w @ disable_backup_daemon #
       (if isl (fst (command_result t disable_backup_daemon (backend w))) then []
        else [get_config, get_backup_daemon_state]) \<and>
   invoked (snd (handlePause t w)) =
     invoked w @ pause_backup_daemon #
       (if isl (fst (command_result t pause_backup_daemon (backend w))) then []
        else [get_backup_daemon_state]) \<and>
   invoked (snd (handleResume t w)) =
     invoked w @ resume_backup_daemon #
       (if isl (fst (command_result t resume_backup_daemon (backend w))) then []
        else [get_backup_daemon_state]) \<and>
   invoked (snd (handleRetry t manifestCid w)) =
     invoked w @ retry_failed_manifest manifestCid #
       (if isl (fst (command_result t (retry_failed_manifest manifestCid) (backend w))) then []
        else [get_backup_daemon_state]) \<and>
   invoked (snd (loadState t w)) = invoked w @ [get_backup_daemon_state] \<and>
   (\<forall>s b'. state_result t (backend w) = (Inr s, b') \<longrightarrow>
      daemonState (snd (loadState t w)) = Some s) \<and>
   map (\<lambda>b. snd (snd b)) (headerActions t False action) = [handleEnable t] \<and>
   map (\<lambda>b. snd (snd b)) (headerActions t True action) =
     [handlePause t, handleResume t, handleDisable t] \<and>
   fr_onClick (failedRow t toLocaleString cfg action failed) =
     handleRetry t (fm_manifestCid failed)"
proof -
  have query: "daemonState (snd (loadState t w)) = Some s"
    if "state_result t (backend w) = (Inr s, b')" for s b'
    using loadState_success [OF that] by simp
  have traces:
    "invoked (snd (handleEnable t w)) =
       invoked w @ enable_backup_daemon #
         (if isl (fst (command_result t enable_backup_daemon (backend w))) then []
          else [get_config, get_backup_daemon_state])"
    "invoked (snd (handleDisable t w)) =
       invoked w @ disable_backup_daemon #
         (if isl (fst (command_result t disable_backup_daemon (backend w))) then []
          else [get_config, get_backup_daemon_state])"
    "invoked (snd (handlePause t w)) =
       invoked w @ pause_backup_daemon #
         (if isl (fst (command_result t pause_backup_daemon (backend w))) then []
          else [get_backup_daemon_state])"
    "invoked (snd (handleResume t w)) =
       invoked w @ resume_backup_daemon #
         (if isl (fst (command_result t resume_backup_daemon (backend w))) then []
          else [get_backup_daemon_state])"
    "invoked (snd (handleRetry t manifestCid w)) =
       invoked w @ retry_failed_manifest manifestCid #
         (if isl (fst (command_result t (retry_failed_manifest manifestCid) (backend w))) then []
          else [get_backup_daemon_state])"
    by (rule handleEnable_invoked handleDisable_invoked handlePause_invoked
        handleResume_invoked handleRetry_invoked)+
  have buttons:
    "map (\<lambda>b. snd (snd b)) (headerActions t False action) = [handleEnable t]"
    "map (\<lambda>b. snd (snd b)) (headerActions t True action) =
       [handlePause t, handleResume t, handleDisable t]"
    "fr_onClick (failedRow t toLocaleString cfg action failed) =
       handleRetry t (fm_manifestCid failed)"
    by (simp_all add: headerActions_def failedRow_def)
  have query': "\<forall>s b'. state_result t (backend w) = (Inr s, b') \<longrightarrow>
      daemonState (snd (loadState t w)) = Some s"
    using query by blast
  show ?thesis
    by (intro conjI traces loadState_invoked query' buttons)
qed

theorem control_surface_commands_witness:
  "invoked (snd (handleEnable answering_backend fresh_page)) =
     [enable_backup_daemon, get_config, get_backup_daemon_state] \<and>
   invoked (snd (handleDisable rejecting_backend fresh_page)) = [disable_backup_daemon] \<and>
   invoked (snd (handleRetry answering_backend ''zDvZRwzmEEEEFFFFGGGGHHHH'' fresh_page)) =
     [retry_failed_manifest ''zDvZRwzmEEEEFFFFGGGGHHHH'', get_backup_daemon_state] \<and>
   daemonState (snd (loadState answering_backend fresh_page)) = Some sample_state"
proof -
  have q: "state_result answering_backend (backend fresh_page) = (Inr sample_state, ())"
    by (simp add: answering_backend_def)
  show ?thesis
    using control_surface_commands [where t = answering_backend and w = fresh_page
        and manifestCid = "''zDvZRwzmEEEEFFFFGGGGHHHH''"]
      control_surface_commands [where t = rejecting_backend and w = fresh_page] q
    by (simp add: answering_backend_def rejecting_backend_def fresh_page_def)
qed

text \<open>
  C9. None of the five control handlers rejects, whatever the backend answers; each
  ends with the action marker reset to \<^verbatim>\<open>null\<close>; and when its command fails, the
  error shown is the thrown string, the message of the thrown \<^verbatim>\<open>Error\<close>, or the
  handler's fixed fallback text for any other thrown value.
\<close>

theorem control_handlers_contain_failures:
  "(fst (handleEnable t w) = Inr () \<and> actionInProgress (snd (handleEnable t w)) = None \<and>
    (\<forall>e b'. command_result t enable_backup_daemon (backend w) = (Inl e, b') \<longrightarrow>
       error (snd (handleEnable t w)) = Some (error_message e ''Failed to enable daemon''))) \<and>
   (fst (handleDisable t w) = Inr () \<and> actionInProgress (snd (handleDisable t w)) = None \<and>
    (\<forall>e b'. command_result t disable_backup_daemon (backend w) = (Inl e, b') \<longrightarrow>
       error (snd (handleDisable t w)) = Some (error_message e ''Failed to disable daemon''))) \<and>
   (fst (handlePause t w) = Inr () \<and> actionInProgress (snd (handlePause t w)) = None \<and>
    (\<forall>e b'. command_result t pause_backup_daemon (backend w) = (Inl e, b') \<longrightarrow>
       error (snd (handlePause t w)) = Some (error_message e ''Failed to pause daemon''))) \<and>
   (fst (handleResume t w) = Inr () \<and> actionInProgress (snd (handleResume t w)) = None \<and>
    (\<forall>e b'. command_result t resume_backup_daemon (backend w) = (Inl e, b') \<longrightarrow>
       error (snd (handleResume t w)) = Some (error_message e ''Failed to resume daemon''))) \<and>
   (fst (handleRetry t cid w) = Inr () \<and> actionInProgress (snd (handleRetry t cid w)) = None \<and>
    (\<forall>e b'. command_result t (retry_failed_manifest cid) (backend w) = (Inl e, b') \<longrightarrow>
       error (snd (handleRetry t cid w)) = Some (error_message e ''Failed to retry manifest''))) \<and>
   error_message (JString s) fallback = s \<and>
   error_message (JError m) fallback = m \<and>
   error_message (JOther x) fallback = fallback"
proof -
  note totals = handleEnable_total [of t w] handleDisable_total [of t w]
    handlePause_total [of t w] handleResume_total [of t w] handleRetry_total [of t cid w]
  note reports = handleEnable_reports [of t w] handleDisable_reports [of t w]
    handlePause_reports [of t w] handleResume_reports [of t w] handleRetry_reports [of t cid w]
  show ?thesis
    using totals reports by simp
qed

theorem control_handlers_contain_failures_witness:
  "fst (handleEnable rejecting_backend fresh_page) = Inr () \<and>
   actionInProgress (snd (handleEnable rejecting_backend fresh_page)) = None \<and>
   error (snd (handleEnable rejecting_backend fresh_page)) = Some ''Backup daemon is already enabled'' \<and>
   error (snd (handleDisable rejecting_backend fresh_page)) = Some ''config is read-only'' \<and>
   error (snd (handlePause rejecting_backend fresh_page)) = Some ''Failed to pause daemon'' \<and>
   error (snd (handleResume rejecting_backend fresh_page)) = Some ''Failed to resume daemon'' \<and>
   error (snd (handleRetry rejecting_backend ''zDvZ'' fresh_page)) = Some ''Failed to retry manifest''"
proof -
  have c:
    "command_result rejecting_backend enable_backup_daemon (backend fresh_page) =
       (Inl (JString ''Backup daemon is already enabled''), ())"
    "command_result rejecting_backend disable_backup_daemon (backend fresh_page) =
       (Inl (JError ''config is read-only''), ())"
    "command_result rejecting_backend pause_backup_daemon (backend fresh_page) =
       (Inl (JOther ''{code: 7}''), ())"
    "command_result rejecting_backend resume_backup_daemon (backend fresh_page) =
       (Inl (JOther ''{code: 7}''), ())"
    "command_result rejecting_backend (retry_failed_manifest ''zDvZ'') (backend fresh_page) =
       (Inl (JOther ''{code: 7}''), ())"
    by (simp_all add: rejecting_backend_def)
  show ?thesis
    using control_handlers_contain_failures [of rejecting_backend fresh_page "''zDvZ''"] c
    by simp
qed

subsection \<open>The rendered tables\<close>

text \<open>
  C8. The width of a progress bar is the literal 0 whenever \<open>totalFiles\<close> is not
  positive, zero included, and the product of the quotient
  \<open>filesDownloaded / totalFiles\<close> and 100 when it is positive, in whatever arithmetic
  the numbers live. The quotient is taken for positive divisors only: two arithmetics
  that agree on the numbers, on the product and on every quotient by a positive count
  give the same width, however they divide by zero.
\<close>

theorem progress_width_guarded:
  "(ip_totalFiles m \<le> 0 \<longrightarrow> progress_width A m = js_number A 0) \<and>
   (0 < ip_totalFiles m \<longrightarrow>
      progress_width A m =
        js_times A
          (js_divide A (js_number A (ip_filesDownloaded m)) (js_number A (ip_totalFiles m)))
          (js_number A 100)) \<and>
   (js_number B = js_number A \<and> js_times B = js_times A \<and>
    (\<forall>x b. 0 < b \<longrightarrow> js_divide B x (js_number A b) = js_divide A x (js_number A b)) \<longrightarrow>
      progress_width B m = progress_width A m) \<and>
   pr_width_percent (progressRow A toLocaleString m) = progress_width A m"
proof (intro conjI impI)
  assume "ip_totalFiles m \<le> 0"
  then show "progress_width A m = js_number A 0"
    by (simp add: progress_width_def)
next
  assume "0 < ip_totalFiles m"
  then show "progress_width A m =
        js_times A
          (js_divide A (js_number A (ip_filesDownloaded m)) (js_number A (ip_totalFiles m)))
          (js_number A 100)"
    by (simp add: progress_width_def)
next
  assume agree: "js_number B = js_number A \<and> js_times B = js_times A \<and>
    (\<forall>x b. 0 < b \<longrightarrow> js_divide B x (js_number A b) = js_divide A x (js_number A b))"
  show "progress_width B m = progress_width A m"
  proof (cases "0 < ip_totalFiles m")
    case True
    with agree have "js_divide B (js_number A (ip_filesDownloaded m)) (js_number A (ip_totalFiles m)) =
        js_divide A (js_number A (ip_filesDownloaded m)) (js_number A (ip_totalFiles m))"
      by blast
    with agree True show ?thesis
      by (simp add: progress_width_def)
  next
    case False
    with agree show ?thesis
      by (simp add: progress_width_def)
  qed
next
  show "pr_width_percent (progressRow A toLocaleString m) = progress_width A m"
    by (simp add: progressRow_def)
qed

theorem progress_width_guarded_witness:
  "progress_width rational_arithmetic sample_in_progress = Some 25 \<and>
   progress_width rational_arithmetic (sample_in_progress\<lparr>ip_totalFiles := 0\<rparr>) = Some 0 \<and>
   progress_width rational_arithmetic (sample_in_progress\<lparr>ip_totalFiles := - 4\<rparr>) = Some 0 \<and>
   progress_width zero_quotient_arithmetic sample_in_progress =
     progress_width rational_arithmetic sample_in_progress"
proof -
  have agree: "js_number zero_quotient_arithmetic = js_number rational_arithmetic \<and>
      js_times zero_quotient_arithmetic = js_times rational_arithmetic \<and>
      (\<forall>x b. 0 < b \<longrightarrow>
         js_divide zero_quotient_arithmetic x (js_number rational_arithmetic b) =
         js_divide rational_arithmetic x (js_number rational_arithmetic b))"
    by (auto simp add: zero_quotient_arithmetic_def rational_arithmetic_def split: option.splits)
  have totals: "0 < ip_totalFiles sample_in_progress"
    "ip_totalFiles (sample_in_progress\<lparr>ip_totalFiles := 0\<rparr>) \<le> 0"
    "ip_totalFiles (sample_in_progress\<lparr>ip_totalFiles := - 4\<rparr>) \<le> 0"
    by (simp_all add: sample_in_progress_def)
  show ?thesis
    using progress_width_guarded [where A = rational_arithmetic and B = zero_quotient_arithmetic
        and m = sample_in_progress]
      progress_width_guarded [where A = rational_arithmetic
        and m = "sample_in_progress\<lparr>ip_totalFiles := 0\<rparr>"]
      progress_width_guarded [where A = rational_arithmetic
        and m = "sample_in_progress\<lparr>ip_totalFiles := - 4\<rparr>"]
      agree totals
    by (simp add: rational_arithmetic_def sample_in_progress_def)
qed

text \<open>
  C6. Once the page has loaded, every failed manifest of the daemon state has a row in
  the failed-manifests table that shows its error message and its retry count (beside
  the configured maximum, 3 when no configuration is loaded), with a button that is
  disabled only while that very retry is under way. A click on the button, in any
  world, invokes \<^verbatim>\<open>retry_failed_manifest\<close> with the manifest CID of that entry,
  reloads the state when the command succeeded, and ends without an exception and
  with the action marker reset.
\<close>

theorem failed_manifests_exposed:
  assumes "\<not> loading w" and "daemonState w = Some s" and "manifest \<in> set (failedManifests s)"
  shows "\<exists>d rows row.
           BackupServer t A toLocaleString w = Some d \<and>
           failed_section d = Some (int (length (failedManifests s)), rows) \<and>
           length rows = length (failedManifests s) \<and>
           row \<in> set rows \<and>
           fr_error_message row = fm_errorMessage manifest \<and>
           fr_retries row =
             [Num (fm_retryCount manifest), Txt ''/'',
              Num (case config w of None \<Rightarrow> 3 | Some c \<Rightarrow> max_retries (backup_server c))] \<and>
           fr_button_disabled row =
             (actionInProgress w = Some (''retry-'' @ fm_manifestCid manifest)) \<and>
           (\<forall>w'. invoked (snd (fr_onClick row w')) =
                   invoked w' @ retry_failed_manifest (fm_manifestCid manifest) #
                     (if isl (fst (command_result t (retry_failed_manifest (fm_manifestCid manifest))
                                     (backend w')))
                      then [] else [get_backup_daemon_state])) \<and>
           (\<forall>w'. fst (fr_onClick row w') = Inr () \<and>
                  actionInProgress (snd (fr_onClick row w')) = None)"
proof -
  let ?mk = "failedRow t toLocaleString (config w) (actionInProgress w)"
  let ?rows = "map ?mk (failedManifests s)"
  have nonempty: "0 < length (failedManifests s)"
    using assms(3) by (cases "failedManifests s") simp_all
  obtain d where d: "BackupServer t A toLocaleString w = Some d"
    and sect: "failed_section d = Some (int (length (failedManifests s)), ?rows)"
    using assms(1,2) nonempty by (simp add: BackupServer_def Let_def)
  have mem: "?mk manifest \<in> set ?rows"
    using assms(3) by simp
  have click: "fr_onClick (?mk manifest) = handleRetry t (fm_manifestCid manifest)"
    by (simp add: failedRow_def)
  have fields:
    "fr_error_message (?mk manifest) = fm_errorMessage manifest"
    "fr_retries (?mk manifest) =
       [Num (fm_retryCount manifest), Txt ''/'',
        Num (case config w of None \<Rightarrow> 3 | Some c \<Rightarrow> max_retries (backup_server c))]"
    "fr_button_disabled (?mk manifest) =
       (actionInProgress w = Some (''retry-'' @ fm_manifestCid manifest))"
    by (simp_all add: failedRow_def)
  have trace: "\<forall>w'. invoked (snd (fr_onClick (?mk manifest) w')) =
      invoked w' @ retry_failed_manifest (fm_manifestCid manifest) #
        (if isl (fst (command_result t (retry_failed_manifest (fm_manifestCid manifest))
                        (backend w')))
         then [] else [get_backup_daemon_state])"
    unfolding click using handleRetry_invoked [of t "fm_manifestCid manifest"] by blast
  have total: "\<forall>w'. fst (fr_onClick (?mk manifest) w') = Inr () \<and>
      actionInProgress (snd (fr_onClick (?mk manifest) w')) = None"
    unfolding click using handleRetry_total [of t "fm_manifestCid manifest"] by blast
  have len: "length ?rows = length (failedManifests s)"
    by simp
  show ?thesis
    by (intro exI [of _ d] exI [of _ ?rows] exI [of _ "?mk manifest"] conjI
        d sect len mem fields trace total)
qed

theorem failed_manifests_exposed_witness:
  "\<exists>d rows row.
     BackupServer answering_backend rational_arithmetic (\<lambda>d. d) loaded_page = Some d \<and>
     failed_section d = Some (1, rows) \<and>
     length rows = 1 \<and>
     row \<in> set rows \<and>
     fr_error_message row = ''manifest not found'' \<and>
     fr_retries row = [Num 3, Txt ''/'', Num 3] \<and>
     fr_button_disabled row = False \<and>
     invoked (snd (fr_onClick row loaded_page)) =
       [retry_failed_manifest ''zDvZRwzmEEEEFFFFGGGGHHHH'', get_backup_daemon_state] \<and>
     actionInProgress (snd (fr_onClick row loaded_page)) = None"
proof -
  have h: "\<not> loading loaded_page" "daemonState loaded_page = Some sample_state"
    "sample_failed \<in> set (failedManifests sample_state)"
    by (simp_all add: loaded_page_def fresh_page_def sample_state_def)
  obtain d rows row where r:
    "BackupServer answering_backend rational_arithmetic (\<lambda>d. d) loaded_page = Some d"
    "failed_section d = Some (int (length (failedManifests sample_state)), rows)"
    "length rows = length (failedManifests sample_state)"
    "row \<in> set rows"
    "fr_error_message row = fm_errorMessage sample_failed"
    "fr_retries row =
       [Num (fm_retryCount sample_failed), Txt ''/'',
        Num (case config loaded_page of None \<Rightarrow> 3 | Some c \<Rightarrow> max_retries (backup_server c))]"
    "fr_button_disabled row =
       (actionInProgress loaded_page = Some (''retry-'' @ fm_manifestCid sample_failed))"
    "\<forall>w'. invoked (snd (fr_onClick row w')) =
        invoked w' @ retry_failed_manifest (fm_manifestCid sample_failed) #
          (if isl (fst (command_result answering_backend
                          (retry_failed_manifest (fm_manifestCid sample_failed)) (backend w')))
           then [] else [get_backup_daemon_state])"
    "\<forall>w'. fst (fr_onClick row w') = Inr () \<and> actionInProgress (snd (fr_onClick row w')) = None"
    using failed_manifests_exposed [OF h, of answering_backend rational_arithmetic "\<lambda>d. d"]
    by blast
  have "invoked (snd (fr_onClick row loaded_page)) =
       [retry_failed_manifest ''zDvZRwzmEEEEFFFFGGGGHHHH'', get_backup_daemon_state]"
    using r(8) [rule_format, of loaded_page]
    by (simp add: loaded_page_def fresh_page_def sample_failed_def answering_backend_def)
  moreover have "actionInProgress (snd (fr_onClick row loaded_page)) = None"
    using r(9) by blast
  moreover have "fr_error_message row = ''manifest not found''"
    "fr_retries row = [Num 3, Txt ''/'', Num 3]" "fr_button_disabled row = False"
    "failed_section d = Some (1, rows)" "length rows = 1"
    using r(2,3,5,6,7)
    by (simp_all add: loaded_page_def fresh_page_def sample_state_def sample_failed_def)
  ultimately show ?thesis
    using r(1,4) by blast
qed

subsection \<open>The poll cycle and the retry policy\<close>

lemma fetch_exhausts:
  "attempts \<le> maxRetries \<Longrightarrow>
   (\<forall>k. attempts \<le> k \<and> k < maxRetries \<longrightarrow> isl (fetchManifest manifestCid k)) \<Longrightarrow>
   \<exists>e. fetchManifestWithRetries fetchManifest maxRetries manifestCid attempts lastError =
         (Inl e, maxRetries)"
proof (induction fetchManifest maxRetries manifestCid attempts lastError
    rule: fetchManifestWithRetries.induct)
  case (1 fetchManifest maxRetries manifestCid attempts lastError)
  show ?case
  proof (cases "maxRetries \<le> attempts")
    case True
    with "1.prems" have "attempts = maxRetries" by simp
    then show ?thesis by (subst fetchManifestWithRetries.simps) simp
  next
    case False
    with "1.prems" obtain e where e: "fetchManifest manifestCid attempts = Inl e"
      by (cases "fetchManifest manifestCid attempts") (auto dest: spec [of _ attempts])
    have "\<exists>e'. fetchManifestWithRetries fetchManifest maxRetries manifestCid (attempts + 1) (Some e) =
            (Inl e', maxRetries)"
      using "1.IH" [OF False e] False "1.prems" by simp
    then show ?thesis
      using False e by (subst fetchManifestWithRetries.simps) simp
  qed
qed

lemma pollPeer_not_newer:
  assumes "lastProcessedSequence st (sp_peerId p) = Some l" and "mp_sequenceNumber ptr \<le> l"
  shows "pollPeer fetchManifest maxRetries now p (Inr ptr) st = (st, 0)"
  using assms by (simp add: pollPeer_def isNewer_def)

lemma pollPeers_not_newer:
  assumes "\<forall>q \<in> set ps. \<exists>ptr l. discover q = Inr ptr \<and>
             lastProcessedSequence st (sp_peerId q) = Some l \<and> mp_sequenceNumber ptr \<le> l"
  shows "pollPeers discover fetchManifest maxRetries now ps st = (st, 0)"
  using assms
proof (induction ps)
  case Nil
  show ?case by simp
next
  case (Cons q ps)
  from Cons.prems obtain ptr l where q: "discover q = Inr ptr"
    "lastProcessedSequence st (sp_peerId q) = Some l" "mp_sequenceNumber ptr \<le> l"
    by auto
  have "pollPeer fetchManifest maxRetries now q (discover q) st = (st, 0)"
    using pollPeer_not_newer [OF q(2,3)] q(1) by simp
  moreover have "pollPeers discover fetchManifest maxRetries now ps st = (st, 0)"
    using Cons by simp
  ultimately show ?case by simp
qed

text \<open>
  C3. Polling a source peer whose discovered sequence number is at most the last
  sequence number processed for that peer changes nothing and fetches nothing; a poll
  cycle in which this holds for every configured peer leaves the daemon state as it
  was except for \<open>lastPollTime\<close>.
\<close>

theorem idempotent_repoll:
  "(lastProcessedSequence st (sp_peerId p) = Some l \<and> mp_sequenceNumber ptr \<le> l \<longrightarrow>
      pollPeer fetchManifest maxRetries now p (Inr ptr) st = (st, 0)) \<and>
   ((\<forall>q \<in> set (source_peers cfg). \<exists>ptr l. discover q = Inr ptr \<and>
        lastProcessedSequence st (sp_peerId q) = Some l \<and> mp_sequenceNumber ptr \<le> l) \<longrightarrow>
      pollCycle cfg discover fetchManifest now st = (st\<lparr>lastPollTime := now\<rparr>, 0))"
proof (intro conjI impI)
  assume "lastProcessedSequence st (sp_peerId p) = Some l \<and> mp_sequenceNumber ptr \<le> l"
  then show "pollPeer fetchManifest maxRetries now p (Inr ptr) st = (st, 0)"
    using pollPeer_not_newer by blast
next
  assume "\<forall>q \<in> set (source_peers cfg). \<exists>ptr l. discover q = Inr ptr \<and>
        lastProcessedSequence st (sp_peerId q) = Some l \<and> mp_sequenceNumber ptr \<le> l"
  then have "pollPeers discover fetchManifest (max_retries cfg) now (source_peers cfg) st = (st, 0)"
    by (rule pollPeers_not_newer)
  then show "pollCycle cfg discover fetchManifest now st = (st\<lparr>lastPollTime := now\<rparr>, 0)"
    by (simp add: pollCycle_def)
qed

theorem idempotent_repoll_witness:
  "pollPeer answering_fetch 3 ''2025-01-01T00:02:00Z'' peer_one (Inr pointer_one) state_after_one =
     (state_after_one, 0) \<and>
   pollCycle daemon_config (\<lambda>q. Inr pointer_one) answering_fetch ''2025-01-01T00:02:00Z''
       state_after_one =
     (state_after_one\<lparr>lastPollTime := ''2025-01-01T00:02:00Z''\<rparr>, 0)"
proof -
  have last: "lastProcessedSequence state_after_one (sp_peerId peer_one) = Some 1"
    by (simp add: lastProcessedSequence_def state_after_one_def processed_one_def peer_one_def)
  have seq: "mp_sequenceNumber pointer_one \<le> 1"
    by (simp add: pointer_one_def)
  have peers: "source_peers daemon_config = [peer_one]"
    by (simp add: daemon_config_def)
  show ?thesis
    using idempotent_repoll [where st = state_after_one and p = peer_one and l = 1
        and ptr = pointer_one and fetchManifest = answering_fetch and maxRetries = 3
        and now = "''2025-01-01T00:02:00Z''" and cfg = daemon_config
        and discover = "\<lambda>q. Inr pointer_one"]
      last seq peers
    by simp
qed

lemma pollPeer_accepts:
  assumes "isNewer (mp_sequenceNumber ptr) (lastProcessedSequence st (sp_peerId p))"
    and "\<not> inProgressFor st (sp_peerId p) (mp_sequenceNumber ptr)"
    and "\<not> isFailed st (mp_manifestCid ptr)"
  shows "pollPeer fetchManifest maxRetries now p (Inr ptr) st =
           acceptManifest fetchManifest maxRetries now p ptr st"
  using assms by (simp add: pollPeer_def)

lemma pollPeer_failed_skipped:
  "isFailed st (mp_manifestCid ptr) \<Longrightarrow>
   pollPeer fetchManifest maxRetries now p (Inr ptr) st = (st, 0)"
  by (simp add: pollPeer_def)

lemma acceptManifest_exhausted:
  assumes "0 \<le> maxRetries" and "\<forall>k. isl (fetchManifest (mp_manifestCid ptr) k)"
  shows "\<exists>e. acceptManifest fetchManifest maxRetries now p ptr st =
           (st\<lparr>inProgressManifests := AList.delete (mp_manifestCid ptr) (inProgressManifests st),
               failedManifests :=
                 failedManifests st @
                   [\<lparr> fm_manifestCid = mp_manifestCid ptr, fm_sourcePeerId = sp_peerId p,
                      fm_failedAt = now, fm_errorMessage = describeFailure e,
                      fm_retryCount = maxRetries \<rparr>]\<rparr>,
            maxRetries)"
proof -
  obtain e where
    "fetchManifestWithRetries fetchManifest maxRetries (mp_manifestCid ptr) 0 None =
       (Inl e, maxRetries)"
    using fetch_exhausts [of 0 maxRetries fetchManifest "mp_manifestCid ptr" None] assms
    by auto
  then show ?thesis
    by (auto simp add: acceptManifest_def)
qed

lemma inProgressFor_delete:
  "\<not> inProgressFor st peer n \<Longrightarrow>
   \<not> inProgressFor (st\<lparr>inProgressManifests := AList.delete c (inProgressManifests st),
                        failedManifests := fs\<rparr>) peer n"
  by (auto simp add: inProgressFor_def list_ex_iff AList.delete_eq)

lemma isFailed_retry: "\<not> isFailed (retryFailedManifest c st) c"
  by (simp add: isFailed_def retryFailedManifest_def list_ex_iff)

text \<open>
  C5. When every fetch of a newly discovered manifest fails, the poll makes exactly
  \<open>maxRetries\<close> attempts and records the manifest as failed with that retry
  count; from then on no poll of the same pointer fetches or changes anything, whatever
  the fetch client would answer, until \<open>retryFailedManifest\<close> removes the entry,
  after which the next poll tries again.
\<close>

theorem retry_exhaustion:
  assumes "0 \<le> maxRetries"
    and "\<forall>k. isl (fetchManifest (mp_manifestCid ptr) k)"
    and "isNewer (mp_sequenceNumber ptr) (lastProcessedSequence st (sp_peerId p))"
    and "\<not> inProgressFor st (sp_peerId p) (mp_sequenceNumber ptr)"
    and "\<not> isFailed st (mp_manifestCid ptr)"
  shows "\<exists>e st'.
     pollPeer fetchManifest maxRetries now p (Inr ptr) st = (st', maxRetries) \<and>
     failedManifests st' =
       failedManifests st @
         [\<lparr> fm_manifestCid = mp_manifestCid ptr, fm_sourcePeerId = sp_peerId p,
            fm_failedAt = now, fm_errorMessage = describeFailure e,
            fm_retryCount = maxRetries \<rparr>] \<and>
     map_of (inProgressManifests st') (mp_manifestCid ptr) = None \<and>
     processedManifests st' = processedManifests st \<and>
     (\<forall>fetch' retries' later. pollPeer fetch' retries' later p (Inr ptr) st' = (st', 0)) \<and>
     \<not> isFailed (retryFailedManifest (mp_manifestCid ptr) st') (mp_manifestCid ptr) \<and>
     snd (pollPeer fetchManifest maxRetries now p (Inr ptr)
            (retryFailedManifest (mp_manifestCid ptr) st')) = maxRetries"
proof -
  let ?c = "mp_manifestCid ptr"
  obtain e where acc: "acceptManifest fetchManifest maxRetries now p ptr st =
      (st\<lparr>inProgressManifests := AList.delete ?c (inProgressManifests st),
          failedManifests :=
            failedManifests st @
              [\<lparr> fm_manifestCid = ?c, fm_sourcePeerId = sp_peerId p,
                 fm_failedAt = now, fm_errorMessage = describeFailure e,
                 fm_retryCount = maxRetries \<rparr>]\<rparr>,
       maxRetries)" (is "_ = (?st', _)")
    using acceptManifest_exhausted
      [where fetchManifest = fetchManifest and maxRetries = maxRetries and ptr = ptr
         and now = now and p = p and st = st] assms(1,2)
    by blast
  have poll: "pollPeer fetchManifest maxRetries now p (Inr ptr) st = (?st', maxRetries)"
    using pollPeer_accepts [OF assms(3,4,5)] acc by simp
  have failed: "isFailed ?st' ?c"
    by (simp add: isFailed_def)
  have skip: "pollPeer fetch' retries' later p (Inr ptr) ?st' = (?st', 0)"
    for fetch' retries' later
    using pollPeer_failed_skipped [OF failed] by simp
  have gone: "map_of (inProgressManifests ?st') ?c = None"
    by (simp add: AList.delete_conv')
  let ?r = "retryFailedManifest ?c ?st'"
  have newer: "isNewer (mp_sequenceNumber ptr) (lastProcessedSequence ?r (sp_peerId p))"
    using assms(3) by (simp add: retryFailedManifest_def lastProcessedSequence_def)
  have idle: "\<not> inProgressFor ?r (sp_peerId p) (mp_sequenceNumber ptr)"
    using inProgressFor_delete [OF assms(4)]
    by (simp add: retryFailedManifest_def inProgressFor_def)
  have again: "pollPeer fetchManifest maxRetries now p (Inr ptr) ?r =
      acceptManifest fetchManifest maxRetries now p ptr ?r"
    using pollPeer_accepts [OF newer idle isFailed_retry] .
  have count: "snd (pollPeer fetchManifest maxRetries now p (Inr ptr) ?r) = maxRetries"
    using acceptManifest_exhausted
      [where fetchManifest = fetchManifest and maxRetries = maxRetries and ptr = ptr
         and now = now and p = p and st = ?r] assms(1,2) again
    by auto
  show ?thesis
    using poll gone skip isFailed_retry [of ?c ?st'] count
    by (intro exI [of _ e] exI [of _ ?st']) simp
qed

theorem retry_exhaustion_witness:
  "\<exists>st'.
     pollPeer failing_fetch 3 ''2025-01-01T00:02:00Z'' peer_one (Inr pointer_two) state_after_one =
       (st', 3) \<and>
     failedManifests st' =
       [\<lparr> fm_manifestCid = ''zManifestTwo'', fm_sourcePeerId = ''16Uiu2HAmPeerOne'',
          fm_failedAt = ''2025-01-01T00:02:00Z'', fm_errorMessage = ''network error'',
          fm_retryCount = 3 \<rparr>] \<and>
     pollPeer answering_fetch 3 ''2025-01-01T00:03:00Z'' peer_one (Inr pointer_two) st' = (st', 0)"
proof -
  have h: "(0::int) \<le> 3" "\<forall>k. isl (failing_fetch (mp_manifestCid pointer_two) k)"
    "isNewer (mp_sequenceNumber pointer_two)
       (lastProcessedSequence state_after_one (sp_peerId peer_one))"
    "\<not> inProgressFor state_after_one (sp_peerId peer_one) (mp_sequenceNumber pointer_two)"
    "\<not> isFailed state_after_one (mp_manifestCid pointer_two)"
    by (simp_all add: failing_fetch_def isNewer_def lastProcessedSequence_def inProgressFor_def
        isFailed_def state_after_one_def processed_one_def peer_one_def pointer_two_def)
  obtain e st' where r:
    "pollPeer failing_fetch 3 ''2025-01-01T00:02:00Z'' peer_one (Inr pointer_two) state_after_one =
       (st', 3)"
    "failedManifests st' =
       failedManifests state_after_one @
         [\<lparr> fm_manifestCid = mp_manifestCid pointer_two, fm_sourcePeerId = sp_peerId peer_one,
            fm_failedAt = ''2025-01-01T00:02:00Z'', fm_errorMessage = describeFailure e,
            fm_retryCount = 3 \<rparr>]"
    "\<forall>fetch' retries' later. pollPeer fetch' retries' later peer_one (Inr pointer_two) st' = (st', 0)"
    using retry_exhaustion
      [where fetchManifest = failing_fetch and maxRetries = 3 and ptr = pointer_two
         and st = state_after_one and p = peer_one and now = "''2025-01-01T00:02:00Z''"] h
    by blast
  have "pollPeer failing_fetch 3 ''2025-01-01T00:02:00Z'' peer_one (Inr pointer_two) state_after_one =
      (state_after_one\<lparr>failedManifests :=
         [\<lparr> fm_manifestCid = ''zManifestTwo'', fm_sourcePeerId = ''16Uiu2HAmPeerOne'',
            fm_failedAt = ''2025-01-01T00:02:00Z'', fm_errorMessage = ''network error'',
            fm_retryCount = 3 \<rparr>]\<rparr>, 3)"
    by (simp add: pollPeer_def acceptManifest_def fetchManifestWithRetries.simps
        failing_fetch_def isNewer_def lastProcessedSequence_def inProgressFor_def
        isFailed_def state_after_one_def processed_one_def peer_one_def pointer_two_def)
  with r(1) have "failedManifests st' =
       [\<lparr> fm_manifestCid = ''zManifestTwo'', fm_sourcePeerId = ''16Uiu2HAmPeerOne'',
          fm_failedAt = ''2025-01-01T00:02:00Z'', fm_errorMessage = ''network error'',
          fm_retryCount = 3 \<rparr>]"
    by auto
  with r show ?thesis by blast
qed

subsection \<open>Completion records and configuration\<close>

















text \<open>
  C7. The configuration of the daemon consists of \<open>poll_interval_secs\<close>,
  \<open>max_concurrent_downloads\<close>, \<open>max_retries\<close> and
  \<open>auto_delete_tombstones\<close> (with the on/off switch \<open>enabled\<close> the page also
  declares) plus the list of source peers, and the configuration panel of the page
  shows the first four.
\<close>

theorem daemon_configuration_fields:
  "(\<exists>e pi mc mr ad sp.
      (cfg :: DaemonConfig) =
        \<lparr> enabled = e, poll_interval_secs = pi, max_concurrent_downloads = mc,
          max_retries = mr, auto_delete_tombstones = ad, source_peers = sp \<rparr>) \<and>
   configInfo \<lparr> backup_server = BackupServerConfig.truncate cfg \<rparr> =
     [(''Poll Interval:'', [Num (poll_interval_secs cfg), Txt ''s'']),
      (''Max Concurrent Downloads:'', [Num (max_concurrent_downloads cfg)]),
      (''Max Retries:'', [Num (max_retries cfg)]),
      (''Auto-Delete Tombstones:'',
         [Txt (if auto_delete_tombstones cfg then ''Yes'' else ''No'')])]"
proof
  show "\<exists>e pi mc mr ad sp.
      cfg = \<lparr> enabled = e, poll_interval_secs = pi, max_concurrent_downloads = mc,
              max_retries = mr, auto_delete_tombstones = ad, source_peers = sp \<rparr>"
    by (cases cfg) blast
  show "configInfo \<lparr> backup_server = BackupServerConfig.truncate cfg \<rparr> =
     [(''Poll Interval:'', [Num (poll_interval_secs cfg), Txt ''s'']),
      (''Max Concurrent Downloads:'', [Num (max_concurrent_downloads cfg)]),
      (''Max Retries:'', [Num (max_retries cfg)]),
      (''Auto-Delete Tombstones:'',
         [Txt (if auto_delete_tombstones cfg then ''Yes'' else ''No'')])]"
    by (simp add: configInfo_def BackupServerConfig.truncate_def)
qed

theorem daemon_configuration_fields_witness:
  "source_peers daemon_config = [peer_one] \<and>
   configInfo \<lparr> backup_server = BackupServerConfig.truncate daemon_config \<rparr> =
     [(''Poll Interval:'', [Num 30, Txt ''s'']),
      (''Max Concurrent Downloads:'', [Num 3]),
      (''Max Retries:'', [Num 3]),
      (''Auto-Delete Tombstones:'', [Txt ''Yes''])]"
  using daemon_configuration_fields [of daemon_config]
  by (simp add: daemon_config_def)

end
